theory Spec2Isabelle
  imports Complex_Main "HOL-Library.Word"
begin

section \<open>RFV segmentation (app.py)\<close>

text \<open>
  A shallow embedding of the scoring engine of \<^verbatim>\<open>app.py\<close>: the two classifiers
  \<^verbatim>\<open>recencia_class\<close> and \<^verbatim>\<open>freq_val_class\<close>, and the part of \<^verbatim>\<open>main\<close> that
  aggregates the purchases per customer, estimates the quartiles, grades every customer
  and looks the score up in the table of marketing actions.

  The integer columns of pandas are 64-bit machine integers (\<open>64 word\<close>, read by
  \<open>sint\<close>): their sums and differences wrap around. A timestamp is a 64-bit count of
  nanoseconds. A float64 is an exact rational: its rounding and its infinities are
  outside the model. A Python exception is a value of type \<open>error\<close> on the left of a
  sum.
\<close>

subsection \<open>Errors\<close>

datatype error =
  KeyError          \<comment> \<open>a label that the quartile table does not have\<close>
| AttributeError    \<comment> \<open>\<^verbatim>\<open>dia_atual.date()\<close> on a value that is no timestamp\<close>
| TypeError         \<comment> \<open>\<^verbatim>\<open>dia_atual - x\<close> on a value that is no timestamp\<close>
| OverflowError     \<comment> \<open>\<^verbatim>\<open>dia_atual - x\<close> does not fit the 64 bits of a \<^verbatim>\<open>Timedelta\<close>\<close>

subsection \<open>The quartile table\<close>

text \<open>
  \<^verbatim>\<open>q_dict\<close> is the frame \<^verbatim>\<open>quartis\<close>: \<^verbatim>\<open>q_dict[r]\<close> selects the column of the
  metric named \<open>r\<close>, and \<^verbatim>\<open>q_dict[r][0.25]\<close> the entry of that column at the quantile
  level \<open>0.25\<close>. Both selections raise \<^verbatim>\<open>KeyError\<close> on a label that is absent.
\<close>

type_synonym 'a q_table = "string \<rightharpoonup> (rat \<rightharpoonup> 'a)"

definition q_lookup :: "'a q_table \<Rightarrow> string \<Rightarrow> rat \<Rightarrow> error + 'a" where
  "q_lookup q_dict r lv =
     (case q_dict r of
        None \<Rightarrow> Inl KeyError
      | Some col \<Rightarrow> (case col lv of None \<Rightarrow> Inl KeyError | Some v \<Rightarrow> Inr v))"

subsection \<open>The classifiers\<close>

text \<open>
  The branches are tried in the order of the source, and a boundary is looked up only
  when its branch is reached, as Python evaluates the \<^verbatim>\<open>if\<close>/\<^verbatim>\<open>elif\<close> chain.
\<close>

definition recencia_class :: "'a::linorder \<Rightarrow> string \<Rightarrow> 'a q_table \<Rightarrow> error + string" where
  "recencia_class x r q_dict =
     (case q_lookup q_dict r (1/4) of
        Inl e \<Rightarrow> Inl e
      | Inr q25 \<Rightarrow>
          if x \<le> q25 then Inr ''A''
          else (case q_lookup q_dict r (1/2) of
                  Inl e \<Rightarrow> Inl e
                | Inr q50 \<Rightarrow>
                    if x \<le> q50 then Inr ''B''
                    else (case q_lookup q_dict r (3/4) of
                            Inl e \<Rightarrow> Inl e
                          | Inr q75 \<Rightarrow> if x \<le> q75 then Inr ''C'' else Inr ''D'')))"

definition freq_val_class :: "'a::linorder \<Rightarrow> string \<Rightarrow> 'a q_table \<Rightarrow> error + string" where
  "freq_val_class x fv q_dict =
     (case q_lookup q_dict fv (1/4) of
        Inl e \<Rightarrow> Inl e
      | Inr q25 \<Rightarrow>
          if x \<le> q25 then Inr ''D''
          else (case q_lookup q_dict fv (1/2) of
                  Inl e \<Rightarrow> Inl e
                | Inr q50 \<Rightarrow>
                    if x \<le> q50 then Inr ''C''
                    else (case q_lookup q_dict fv (3/4) of
                            Inl e \<Rightarrow> Inl e
                          | Inr q75 \<Rightarrow> if x \<le> q75 then Inr ''B'' else Inr ''A'')))"

text \<open>
  A table that has the three boundaries of the metric \<open>r\<close>: the column is present and
  holds \<open>q25\<close>, \<open>q50\<close> and \<open>q75\<close> at the levels \<open>0.25\<close>, \<open>0.5\<close> and \<open>0.75\<close>.
\<close>

definition has_quartiles :: "'a q_table \<Rightarrow> string \<Rightarrow> 'a \<Rightarrow> 'a \<Rightarrow> 'a \<Rightarrow> bool" where
  "has_quartiles q_dict r q25 q50 q75 =
     (case q_dict r of
        None \<Rightarrow> False
      | Some col \<Rightarrow> col (1/4) = Some q25 \<and> col (1/2) = Some q50 \<and> col (3/4) = Some q75)"

text \<open>The table with one column, used to evaluate the classifiers on concrete boundaries.\<close>

definition one_column :: "string \<Rightarrow> 'a \<Rightarrow> 'a \<Rightarrow> 'a \<Rightarrow> 'a q_table" where
  "one_column r q25 q50 q75 =
     [r \<mapsto> [1/4 \<mapsto> q25, 1/2 \<mapsto> q50, 3/4 \<mapsto> q75]]"

text \<open>The order of the grades, worst to best: D, C, B, A.\<close>

definition grade_rank :: "string \<Rightarrow> nat" where
  "grade_rank g =
     (if g = ''A'' then 3 else if g = ''B'' then 2 else if g = ''C'' then 1 else 0)"

subsection \<open>The purchases\<close>

text \<open>
  A number as a cell of the file holds it: an integer literal, which pandas reads as an
  int64, or a decimal literal, which it reads as a float64.
\<close>

datatype valor = Inteiro "64 word" | Decimal rat

definition valor_float :: "valor \<Rightarrow> rat" where
  "valor_float v = (case v of Inteiro w \<Rightarrow> of_int (sint w) | Decimal x \<Rightarrow> x)"

text \<open>
  One row of \<^verbatim>\<open>df_compras\<close>. The customer, the purchase code and the amount may be
  empty cells (\<open>None\<close>, which pandas reads as NaN). The date is always there, as the
  specification requires of a transaction; \<open>DiaCompra\<close> is the instant it denotes, in
  nanoseconds since 1970-01-01, whatever its distance from that day.
\<close>

record 'k compra =
  ID_cliente :: "'k option"
  DiaCompra :: int
  CodigoCompra :: "string option"
  ValorTotal :: "valor option"

text \<open>
  \<^verbatim>\<open>parse_dates\<close> turns the column into timestamps only when every date fits a 64-bit
  count of nanoseconds (1677-09-21 to 2262-04-11); otherwise the column stays text. A
  file without data rows gives an empty column of dtype object.
\<close>

definition timestamp_ok :: "int \<Rightarrow> bool" where
  "timestamp_ok x \<longleftrightarrow> - 9223372036854775807 \<le> x \<and> x \<le> 9223372036854775807"

text \<open>
  What \<^verbatim>\<open>df_compras['DiaCompra'].max()\<close> returns: a timestamp, the float NaN for an
  empty column, or a string for a column of text.
\<close>

datatype dia = Timestamp int | NaN | Str

definition Series_max :: "int list \<Rightarrow> dia" where
  "Series_max xs =
     (if xs = [] then NaN
      else if list_all timestamp_ok xs then Timestamp (Max (set xs))
      else Str)"

definition ns_per_day :: int where
  "ns_per_day = 86400000000000"

text \<open>
  Line 105, \<^verbatim>\<open>dia_atual.date()\<close>: the calendar day of a timestamp; a float and a string
  have no such method.
\<close>

definition date :: "dia \<Rightarrow> error + int" where
  "date d = (case d of Timestamp x \<Rightarrow> Inr (x div ns_per_day) | NaN \<Rightarrow> Inl AttributeError
             | Str \<Rightarrow> Inl AttributeError)"

text \<open>\<^verbatim>\<open>Timedelta.days\<close>: the whole days of a difference of timestamps, rounded down.\<close>

definition days :: "int \<Rightarrow> int" where
  "days td = td div ns_per_day"

text \<open>
  The function of line 109, \<^verbatim>\<open>lambda x: (dia_atual - x).days\<close>. The difference of two
  timestamps is a \<^verbatim>\<open>Timedelta\<close>, again a 64-bit count of nanoseconds, and the
  subtraction raises when the difference does not fit. The days enter an int64 column.
\<close>

definition timedelta_ok :: "int \<Rightarrow> bool" where
  "timedelta_ok x \<longleftrightarrow> - 9223372036854775807 \<le> x \<and> x \<le> 9223372036854775807"

definition dias_desde :: "dia \<Rightarrow> int \<Rightarrow> error + 64 word" where
  "dias_desde dia_atual x =
     (case dia_atual of
        Timestamp d \<Rightarrow>
          if timedelta_ok (d - x) then Inr (of_int (days (d - x))) else Inl OverflowError
      | NaN \<Rightarrow> Inl TypeError
      | Str \<Rightarrow> Inl TypeError)"

text \<open>\<^verbatim>\<open>Series.apply\<close> calls the function on every element in turn; the first exception ends it.\<close>

fun Series_apply :: "('a \<Rightarrow> error + 'b) \<Rightarrow> 'a list \<Rightarrow> error + 'b list" where
  "Series_apply f [] = Inr []"
| "Series_apply f (x # xs) =
     (case f x of
        Inl e \<Rightarrow> Inl e
      | Inr y \<Rightarrow> (case Series_apply f xs of Inl e \<Rightarrow> Inl e | Inr ys \<Rightarrow> Inr (y # ys)))"

text \<open>
  \<^verbatim>\<open>groupby\<close> on a key: one group per distinct key, the keys in increasing order, the
  rows of a group in the order of the frame. A row whose key is empty is in no group,
  and no group is empty.
\<close>

definition groupby :: "('r \<Rightarrow> ('k::linorder) option) \<Rightarrow> 'r list \<Rightarrow> ('k \<times> 'r list) list" where
  "groupby key df =
     map (\<lambda>k. (k, filter (\<lambda>r. key r = Some k) df)) (sort (remdups (List.map_filter key df)))"

text \<open>
  \<^verbatim>\<open>left.merge(right, on='ID_cliente')\<close>, an inner join: every row of the left frame is
  paired with every row of the right frame that has the same key, in the order of the
  left frame.
\<close>

definition merge :: "('k \<times> 'a) list \<Rightarrow> ('k \<times> 'b) list \<Rightarrow> ('k \<times> 'a \<times> 'b) list" where
  "merge left right =
     concat (map (\<lambda>(k, a). map (\<lambda>(k', b). (k, a, b)) (filter (\<lambda>(k', b). k' = k) right)) left)"

subsection \<open>The metrics of a customer\<close>

text \<open>
  One row of \<^verbatim>\<open>df_RFV\<close> as built in lines 127 to 132; \<open>cliente\<close> is its index. Recency
  and frequency are int64 columns; the value column has the dtype of the amounts.
\<close>

record 'k metricas =
  cliente :: 'k
  Recencia :: "64 word"
  Frequencia :: "64 word"
  Valor :: valor

text \<open>
  Lines 107 to 110: the last purchase of every customer, then the function of line 109
  on each of them.
\<close>

definition df_recencia :: "dia \<Rightarrow> ('k::linorder) compra list \<Rightarrow> error + ('k \<times> 64 word) list" where
  "df_recencia dia_atual df_compras =
     (let grupos = groupby ID_cliente df_compras;
          DiaUltimaCompra = map (\<lambda>(k, g). Max (set (map DiaCompra g))) grupos
      in case Series_apply (dias_desde dia_atual) DiaUltimaCompra of
           Inl e \<Rightarrow> Inl e
         | Inr dias \<Rightarrow> Inr (zip (map fst grupos) dias))"

text \<open>
  Line 115, \<^verbatim>\<open>count()\<close>: the number of purchase codes of every customer that are not
  missing, an int64.
\<close>

definition df_frequencia :: "('k::linorder) compra list \<Rightarrow> ('k \<times> 64 word) list" where
  "df_frequencia df_compras =
     map (\<lambda>(k, g). (k, of_nat (length (filter (\<lambda>c. c \<noteq> None) (map CodigoCompra g)))))
       (groupby ID_cliente df_compras)"

text \<open>
  The amounts are an int64 column when every cell of the column is an integer; one
  decimal or one empty cell makes the whole column float64.
\<close>

definition coluna_int64 :: "valor option list \<Rightarrow> bool" where
  "coluna_int64 col = list_all (\<lambda>c. case c of Some (Inteiro w) \<Rightarrow> True | _ \<Rightarrow> False) col"

text \<open>
  \<^verbatim>\<open>sum()\<close> of a group: in an int64 column the 64-bit sum, which wraps around; in a
  float64 column the sum of the cells that are not missing (zero when all are).
\<close>

definition soma :: "bool \<Rightarrow> valor option list \<Rightarrow> valor" where
  "soma int64 g =
     (if int64
      then Inteiro (sum_list (List.map_filter (\<lambda>c. case c of Some (Inteiro w) \<Rightarrow> Some w | _ \<Rightarrow> None) g))
      else Decimal (sum_list (List.map_filter (map_option valor_float) g)))"

text \<open>Line 121: the sum of the amounts of every customer.\<close>

definition df_valor :: "('k::linorder) compra list \<Rightarrow> ('k \<times> valor) list" where
  "df_valor df_compras =
     map (\<lambda>(k, g). (k, soma (coluna_int64 (map ValorTotal df_compras)) (map ValorTotal g)))
       (groupby ID_cliente df_compras)"

text \<open>
  The aggregation, lines 107 to 132: the three frames, the two merges, and the key
  becomes the index. Only the function of line 109 can raise.
\<close>

definition agregar :: "dia \<Rightarrow> ('k::linorder) compra list \<Rightarrow> error + 'k metricas list" where
  "agregar dia_atual df_compras =
     (case df_recencia dia_atual df_compras of
        Inl e \<Rightarrow> Inl e
      | Inr df_rec \<Rightarrow>
          Inr (map (\<lambda>(k, (r, f), v). \<lparr>cliente = k, Recencia = r, Frequencia = f, Valor = v\<rparr>)
                (merge (merge df_rec (df_frequencia df_compras)) (df_valor df_compras))))"

subsection \<open>The quartiles\<close>

text \<open>A column of \<^verbatim>\<open>df_RFV\<close> with its dtype.\<close>

datatype coluna = Int64 "64 word list" | Float64 "rat list"

text \<open>
  numpy's linear interpolation between the neighbours \<open>a\<close> and \<open>b\<close> at the fraction
  \<open>t\<close>, given their difference \<open>b - a\<close> as the dtype of the column computes it: from
  \<open>a\<close> upwards below one half, from \<open>b\<close> downwards from one half on.
\<close>

definition lerp :: "rat \<Rightarrow> rat \<Rightarrow> rat \<Rightarrow> rat \<Rightarrow> rat" where
  "lerp a b diff_b_a t = (if 1/2 \<le> t then b - diff_b_a * (1 - t) else a + diff_b_a * t)"

text \<open>
  \<^verbatim>\<open>quantile\<close> with the default linear interpolation: on the sorted column \<open>s\<close> of
  length \<open>n\<close> the level \<open>q\<close> sits at the position \<open>h = (n - 1) * q\<close>, and the result
  interpolates between the neighbours \<open>s ! \<lfloor>h\<rfloor>\<close> and \<open>s ! (\<lfloor>h\<rfloor> + 1)\<close>, the upper index
  clipped to \<open>n - 1\<close>. In an int64 column the difference of the neighbours is a 64-bit
  subtraction, which wraps around. An empty column gives NaN, here \<open>None\<close>; so does a
  level outside \<open>[0, 1]\<close>, which pandas rejects and \<^verbatim>\<open>main\<close> never passes.
\<close>

definition Series_quantile :: "coluna \<Rightarrow> rat \<Rightarrow> rat option" where
  "Series_quantile col q =
     (case col of
        Int64 ws \<Rightarrow>
          if ws = [] \<or> q < 0 \<or> 1 < q then None
          else
            let s = sort_key sint ws;
                h = of_nat (length s - 1) * q;
                lo = nat \<lfloor>h\<rfloor>;
                hi = min (lo + 1) (length s - 1);
                a = s ! lo;
                b = s ! hi
            in Some (lerp (of_int (sint a)) (of_int (sint b)) (of_int (sint (b - a)))
                       (h - of_int \<lfloor>h\<rfloor>))
      | Float64 xs \<Rightarrow>
          if xs = [] \<or> q < 0 \<or> 1 < q then None
          else
            let s = sort xs;
                h = of_nat (length s - 1) * q;
                lo = nat \<lfloor>h\<rfloor>;
                hi = min (lo + 1) (length s - 1);
                a = s ! lo;
                b = s ! hi
            in Some (lerp a b (b - a) (h - of_int \<lfloor>h\<rfloor>)))"

text \<open>The column of the three levels \<^verbatim>\<open>q=[0.25, 0.5, 0.75]\<close> of one metric.\<close>

definition quantis :: "coluna \<Rightarrow> (rat \<rightharpoonup> rat)" where
  "quantis col = (\<lambda>lv. if lv = 1/4 \<or> lv = 1/2 \<or> lv = 3/4 then Series_quantile col lv else None)"

text \<open>The integers of a column of values, when all of them are integers.\<close>

fun inteiros :: "valor list \<Rightarrow> 64 word list option" where
  "inteiros [] = Some []"
| "inteiros (Inteiro w # vs) = map_option ((#) w) (inteiros vs)"
| "inteiros (Decimal x # vs) = None"

text \<open>The three columns of \<^verbatim>\<open>df_RFV\<close>.\<close>

definition coluna_Recencia :: "'k metricas list \<Rightarrow> coluna" where
  "coluna_Recencia t = Int64 (map Recencia t)"

definition coluna_Frequencia :: "'k metricas list \<Rightarrow> coluna" where
  "coluna_Frequencia t = Int64 (map Frequencia t)"

definition coluna_Valor :: "'k metricas list \<Rightarrow> coluna" where
  "coluna_Valor t =
     (case inteiros (map Valor t) of
        Some ws \<Rightarrow> Int64 ws
      | None \<Rightarrow> Float64 (map (\<lambda>m. valor_float (Valor m)) t))"

text \<open>
  Line 137, \<^verbatim>\<open>df_RFV.quantile(q=[0.25, 0.5, 0.75])\<close>: one column of boundaries per
  metric. (The NaN boundaries of a frame without rows appear as absent entries; no
  customer is graded then.)
\<close>

definition DataFrame_quantile :: "'k metricas list \<Rightarrow> rat q_table" where
  "DataFrame_quantile t =
     [''Recencia'' \<mapsto> quantis (coluna_Recencia t),
      ''Frequencia'' \<mapsto> quantis (coluna_Frequencia t),
      ''Valor'' \<mapsto> quantis (coluna_Valor t)]"

subsection \<open>The marketing actions\<close>

text \<open>
  The dictionary of lines 156 to 161, the letters outside ASCII as their UTF-8 bytes.
\<close>

definition dict_acoes :: "(string \<times> string) list" where
  "dict_acoes =
     [(''AAA'',
       ''Enviar cupons de desconto, pedir indica'' @ [CHR 0xC3, CHR 0xA7, CHR 0xC3, CHR 0xA3] @
       ''o, enviar amostras gr'' @ [CHR 0xC3, CHR 0xA1] @ ''tis de novos produtos.''),
      (''DDD'',
       ''Clientes inativos com baixo gasto '' @ [CHR 0xE2, CHR 0x80, CHR 0x94] @
       '' monitorar ou desconsiderar a'' @ [CHR 0xC3, CHR 0xA7, CHR 0xC3, CHR 0xB5] @ ''es.''),
      (''DAA'',
       ''Clientes que gastaram bastante mas est'' @ [CHR 0xC3, CHR 0xA3] @ ''o sumindo '' @
       [CHR 0xE2, CHR 0x80, CHR 0x94] @ '' enviar cupom de reativa'' @
       [CHR 0xC3, CHR 0xA7, CHR 0xC3, CHR 0xA3] @ ''o.''),
      (''CAA'',
       ''Clientes que gastaram bastante mas est'' @ [CHR 0xC3, CHR 0xA3] @ ''o sumindo '' @
       [CHR 0xE2, CHR 0x80, CHR 0x94] @ '' enviar cupom de reativa'' @
       [CHR 0xC3, CHR 0xA7, CHR 0xC3, CHR 0xA3] @ ''o.'')]"

text \<open>
  \<^verbatim>\<open>Series.map(dict)\<close> looks every element up in the dictionary; an element that is not
  a key becomes the missing value NaN, here \<open>None\<close>, and nothing is raised.
\<close>

definition Series_map :: "('a \<times> 'b) list \<Rightarrow> 'a list \<Rightarrow> 'b option list" where
  "Series_map d xs = map (map_of d) xs"

subsection \<open>Grading the customers\<close>

text \<open>One row of the final \<^verbatim>\<open>df_RFV\<close>: the metrics, the three grades, the score, the action.\<close>

record 'k rfv = "'k metricas" +
  R_quartil :: string
  F_quartil :: string
  V_quartil :: string
  RFV_Score :: string
  acoes :: "string option"

text \<open>
  Lines 140 to 163: the three columns of grades, the score, the action. A number of a
  column is compared with the boundaries by its value.
\<close>

definition classificar :: "rat q_table \<Rightarrow> 'k metricas list \<Rightarrow> error + 'k rfv list" where
  "classificar quartis t =
     (case Series_apply (\<lambda>x. recencia_class (of_int (sint x)) ''Recencia'' quartis)
             (map Recencia t) of
        Inl e \<Rightarrow> Inl e
      | Inr R \<Rightarrow>
     (case Series_apply (\<lambda>x. freq_val_class (of_int (sint x)) ''Frequencia'' quartis)
             (map Frequencia t) of
        Inl e \<Rightarrow> Inl e
      | Inr F \<Rightarrow>
     (case Series_apply (\<lambda>x. freq_val_class (valor_float x) ''Valor'' quartis) (map Valor t) of
        Inl e \<Rightarrow> Inl e
      | Inr V \<Rightarrow>
          (let score = map (\<lambda>(r, f, v). r @ f @ v) (zip R (zip F V));
               acao = Series_map dict_acoes score
           in Inr (map (\<lambda>(m, r, f, v, s, a).
                     \<lparr>cliente = cliente m, Recencia = Recencia m, Frequencia = Frequencia m,
                      Valor = Valor m, R_quartil = r, F_quartil = f, V_quartil = v,
                      RFV_Score = s, acoes = a\<rparr>)
                   (zip t (zip R (zip F (zip V (zip score acao))))))))))"

text \<open>
  The run, lines 104 to 163: the current day, its display in line 105, the aggregation,
  the quartiles, the grades. It ends with the final table or with the exception that
  stopped it.
\<close>

definition main :: "('k::linorder) compra list \<Rightarrow> error + 'k rfv list" where
  "main df_compras =
     (let dia_atual = Series_max (map DiaCompra df_compras)
      in case date dia_atual of
           Inl e \<Rightarrow> Inl e
         | Inr _ \<Rightarrow>
             (case agregar dia_atual df_compras of
                Inl e \<Rightarrow> Inl e
              | Inr t \<Rightarrow> classificar (DataFrame_quantile t) t))"

subsection \<open>What the specification asks of the aggregation\<close>

text \<open>
  The rows of the customer \<open>k\<close>, the customers of a frame, the last purchase of
  \<open>k\<close>, and the metrics of \<open>k\<close> written out directly, with \<open>d\<close> the current day: the whole days from the customer's last purchase to \<open>d\<close>, the number
  of the customer's purchase codes, the sum of the customer's amounts in the dtype of
  the column. The aggregation of the source is compared with it below.
\<close>

definition compras_de :: "'k compra list \<Rightarrow> 'k \<Rightarrow> 'k compra list" where
  "compras_de df k = filter (\<lambda>r. ID_cliente r = Some k) df"

definition clientes :: "('k::linorder) compra list \<Rightarrow> 'k list" where
  "clientes df = sort (remdups (List.map_filter ID_cliente df))"

definition ultima_compra :: "'k compra list \<Rightarrow> 'k \<Rightarrow> int" where
  "ultima_compra df k = Max (DiaCompra ` set (compras_de df k))"

definition metricas_de :: "int \<Rightarrow> 'k compra list \<Rightarrow> 'k \<Rightarrow> 'k metricas" where
  "metricas_de d df k =
     \<lparr>cliente = k,
      Recencia = of_int (days (d - ultima_compra df k)),
      Frequencia = of_nat (length (filter (\<lambda>r. CodigoCompra r \<noteq> None) (compras_de df k))),
      Valor = soma (coluna_int64 (map ValorTotal df)) (map ValorTotal (compras_de df k))\<rparr>"

text \<open>The column of \<^verbatim>\<open>df_RFV\<close> that carries the metric of a given name.\<close>

definition coluna_de :: "'k metricas list \<Rightarrow> string \<Rightarrow> coluna" where
  "coluna_de t m =
     (if m = ''Recencia'' then coluna_Recencia t
      else if m = ''Frequencia'' then coluna_Frequencia t
      else coluna_Valor t)"

text \<open>
  The width of a column: an int64 column does not overflow when the distance between
  its smallest and its largest number is below \<open>2^63\<close>; a float64 column never does.
\<close>

definition sem_estouro :: "coluna \<Rightarrow> bool" where
  "sem_estouro col =
     (case col of
        Int64 ws \<Rightarrow>
          ws = [] \<or> Max (sint ` set ws) - Min (sint ` set ws) < 9223372036854775808
      | Float64 xs \<Rightarrow> True)"

text \<open>
  The example of the specification: customer 1 buys on 2023-01-01 for 50 and on
  2023-01-10 for 30, and customer 2 buys on 2023-01-20, the last day of the data.
\<close>

definition exemplo :: "nat compra list" where
  "exemplo =
     [\<lparr>ID_cliente = Some 1, DiaCompra = 1672531200000000000, CodigoCompra = Some ''p1'',
       ValorTotal = Some (Inteiro 50)\<rparr>,
      \<lparr>ID_cliente = Some 2, DiaCompra = 1674172800000000000, CodigoCompra = Some ''p2'',
       ValorTotal = Some (Inteiro 12)\<rparr>,
      \<lparr>ID_cliente = Some 1, DiaCompra = 1673308800000000000, CodigoCompra = Some ''p3'',
       ValorTotal = Some (Inteiro 30)\<rparr>]"

text \<open>
  The numbers of a column in increasing order, as the interpolation reads them.
\<close>

definition valores :: "coluna \<Rightarrow> rat list" where
  "valores col =
     (case col of
        Int64 ws \<Rightarrow> map (\<lambda>w. of_int (sint w)) (sort_key sint ws)
      | Float64 xs \<Rightarrow> sort xs)"




subsection \<open>Properties of the classifiers\<close>

lemma q_lookup_has_quartiles:
  assumes "has_quartiles q_dict r q25 q50 q75"
  shows "q_lookup q_dict r (1/4) = Inr q25"
    and "q_lookup q_dict r (1/2) = Inr q50"
    and "q_lookup q_dict r (3/4) = Inr q75"
  using assms by (auto simp: has_quartiles_def q_lookup_def split: option.splits)

lemma has_quartiles_one_column: "has_quartiles (one_column r a b c) r a b c"
  by (simp add: has_quartiles_def one_column_def)

lemma recencia_class_eq:
  "has_quartiles q_dict r q25 q50 q75 \<Longrightarrow>
   recencia_class x r q_dict =
     Inr (if x \<le> q25 then ''A'' else if x \<le> q50 then ''B'' else if x \<le> q75 then ''C'' else ''D'')"
  by (simp add: recencia_class_def q_lookup_has_quartiles)

lemma freq_val_class_eq:
  "has_quartiles q_dict fv q25 q50 q75 \<Longrightarrow>
   freq_val_class x fv q_dict =
     Inr (if x \<le> q25 then ''D'' else if x \<le> q50 then ''C'' else if x \<le> q75 then ''B'' else ''A'')"
  by (simp add: freq_val_class_def q_lookup_has_quartiles)

text \<open>
  C1. With the boundaries \<open>q25\<close>, \<open>q50\<close>, \<open>q75\<close> of the metric in the table, a quartile
  table having them in increasing order (only \<open>q25 \<le> q50\<close> is used), the recency
  classifier returns 'A' when \<open>x \<le> q25\<close>, 'B' when \<open>q25 < x \<le> q50\<close>, 'C' when
  \<open>q50 < x \<le> q75\<close>, and 'D' in every other case.
\<close>

theorem recencia_class_policy:
  fixes x :: "'a::linorder"
  shows "has_quartiles q_dict r q25 q50 q75 \<Longrightarrow> q25 \<le> q50 \<Longrightarrow>
     (x \<le> q25 \<longrightarrow> recencia_class x r q_dict = Inr ''A'') \<and>
     (q25 < x \<and> x \<le> q50 \<longrightarrow> recencia_class x r q_dict = Inr ''B'') \<and>
     (q50 < x \<and> x \<le> q75 \<longrightarrow> recencia_class x r q_dict = Inr ''C'') \<and>
     (\<not> x \<le> q25 \<and> \<not> (q25 < x \<and> x \<le> q50) \<and> \<not> (q50 < x \<and> x \<le> q75) \<longrightarrow>
        recencia_class x r q_dict = Inr ''D'')"
  by (auto simp: recencia_class_eq)

theorem recencia_class_policy_witness:
  "has_quartiles (one_column ''Recencia'' (2::int) 4 6) ''Recencia'' 2 4 6 \<and> (2::int) \<le> 4 \<and>
   recencia_class (2::int) ''Recencia'' (one_column ''Recencia'' 2 4 6) = Inr ''A'' \<and>
   recencia_class (3::int) ''Recencia'' (one_column ''Recencia'' 2 4 6) = Inr ''B'' \<and>
   recencia_class (5::int) ''Recencia'' (one_column ''Recencia'' 2 4 6) = Inr ''C'' \<and>
   recencia_class (7::int) ''Recencia'' (one_column ''Recencia'' 2 4 6) = Inr ''D''"
proof -
  have h: "has_quartiles (one_column ''Recencia'' (2::int) 4 6) ''Recencia'' 2 4 6"
    by (rule has_quartiles_one_column)
  have o: "(2::int) \<le> 4" by simp
  show ?thesis
    using h recencia_class_policy [OF h o, of 2] recencia_class_policy [OF h o, of 3]
      recencia_class_policy [OF h o, of 5] recencia_class_policy [OF h o, of 7]
    by simp
qed

text \<open>
  C2. With the boundaries \<open>q25\<close>, \<open>q50\<close>, \<open>q75\<close> of the metric in the table, a quartile
  table having them in increasing order (only \<open>q25 \<le> q50\<close> is used), the
  frequency/value classifier returns 'D' when \<open>x \<le> q25\<close>, 'C' when \<open>q25 < x \<le> q50\<close>,
  'B' when \<open>q50 < x \<le> q75\<close>, and 'A' in every other case.
\<close>

theorem freq_val_class_policy:
  fixes x :: "'a::linorder"
  shows "has_quartiles q_dict fv q25 q50 q75 \<Longrightarrow> q25 \<le> q50 \<Longrightarrow>
     (x \<le> q25 \<longrightarrow> freq_val_class x fv q_dict = Inr ''D'') \<and>
     (q25 < x \<and> x \<le> q50 \<longrightarrow> freq_val_class x fv q_dict = Inr ''C'') \<and>
     (q50 < x \<and> x \<le> q75 \<longrightarrow> freq_val_class x fv q_dict = Inr ''B'') \<and>
     (\<not> x \<le> q25 \<and> \<not> (q25 < x \<and> x \<le> q50) \<and> \<not> (q50 < x \<and> x \<le> q75) \<longrightarrow>
        freq_val_class x fv q_dict = Inr ''A'')"
  by (auto simp: freq_val_class_eq)

theorem freq_val_class_policy_witness:
  "has_quartiles (one_column ''Valor'' (2::rat) 4 6) ''Valor'' 2 4 6 \<and> (2::rat) \<le> 4 \<and>
   freq_val_class (2::rat) ''Valor'' (one_column ''Valor'' 2 4 6) = Inr ''D'' \<and>
   freq_val_class (3::rat) ''Valor'' (one_column ''Valor'' 2 4 6) = Inr ''C'' \<and>
   freq_val_class (5::rat) ''Valor'' (one_column ''Valor'' 2 4 6) = Inr ''B'' \<and>
   freq_val_class (7::rat) ''Valor'' (one_column ''Valor'' 2 4 6) = Inr ''A''"
proof -
  have h: "has_quartiles (one_column ''Valor'' (2::rat) 4 6) ''Valor'' 2 4 6"
    by (rule has_quartiles_one_column)
  have o: "(2::rat) \<le> 4" by simp
  show ?thesis
    using h freq_val_class_policy [OF h o, of 2] freq_val_class_policy [OF h o, of 3]
      freq_val_class_policy [OF h o, of 5] freq_val_class_policy [OF h o, of 7]
    by simp
qed

text \<open>
  C3. Grading is total and deterministic at the boundaries: with the three boundaries in
  the table, each classifier returns exactly one grade among A, B, C, D and raises no
  error; a value equal to a boundary gets the first bucket whose \<open>\<le>\<close> comparison it
  passes. A value at \<open>q25\<close> gets the first bucket of the policy ('A' for recency, 'D' for
  frequency/value); a value at \<open>q50\<close> gets the second bucket unless \<open>q50 \<le> q25\<close> already
  put it in the first; a value at \<open>q75\<close> gets the third unless an earlier comparison
  holds.
\<close>

theorem grade_total_boundary:
  fixes x :: "'a::linorder"
  shows "has_quartiles q_dict r q25 q50 q75 \<Longrightarrow>
     (\<exists>!g. g \<in> {''A'', ''B'', ''C'', ''D''} \<and> recencia_class x r q_dict = Inr g) \<and>
     (\<exists>!g. g \<in> {''A'', ''B'', ''C'', ''D''} \<and> freq_val_class x r q_dict = Inr g) \<and>
     (x = q25 \<longrightarrow> recencia_class x r q_dict = Inr ''A'' \<and> freq_val_class x r q_dict = Inr ''D'') \<and>
     (x = q50 \<longrightarrow>
        recencia_class x r q_dict = Inr (if q50 \<le> q25 then ''A'' else ''B'') \<and>
        freq_val_class x r q_dict = Inr (if q50 \<le> q25 then ''D'' else ''C'')) \<and>
     (x = q75 \<longrightarrow>
        recencia_class x r q_dict =
          Inr (if q75 \<le> q25 then ''A'' else if q75 \<le> q50 then ''B'' else ''C'') \<and>
        freq_val_class x r q_dict =
          Inr (if q75 \<le> q25 then ''D'' else if q75 \<le> q50 then ''C'' else ''B''))"
  by (auto simp: recencia_class_eq freq_val_class_eq)

theorem grade_total_boundary_witness:
  "has_quartiles (one_column ''Recencia'' (2::int) 4 6) ''Recencia'' 2 4 6 \<and>
   recencia_class (2::int) ''Recencia'' (one_column ''Recencia'' 2 4 6) = Inr ''A'' \<and>
   freq_val_class (2::int) ''Recencia'' (one_column ''Recencia'' 2 4 6) = Inr ''D'' \<and>
   recencia_class (4::int) ''Recencia'' (one_column ''Recencia'' 2 4 6) = Inr ''B'' \<and>
   freq_val_class (4::int) ''Recencia'' (one_column ''Recencia'' 2 4 6) = Inr ''C'' \<and>
   recencia_class (6::int) ''Recencia'' (one_column ''Recencia'' 2 4 6) = Inr ''C'' \<and>
   freq_val_class (6::int) ''Recencia'' (one_column ''Recencia'' 2 4 6) = Inr ''B''"
proof -
  have h: "has_quartiles (one_column ''Recencia'' (2::int) 4 6) ''Recencia'' 2 4 6"
    by (rule has_quartiles_one_column)
  show ?thesis
    using h grade_total_boundary [OF h, of 2] grade_total_boundary [OF h, of 4]
      grade_total_boundary [OF h, of 6]
    by simp
qed

text \<open>
  C10. Grading is monotone in the direction of the policy: with boundaries
  \<open>q25 \<le> q50 \<le> q75\<close> and \<open>x \<le> y\<close>, the recency grade of \<open>x\<close> is at least as good as that
  of \<open>y\<close>, and the frequency/value grade of \<open>y\<close> is at least as good as that of \<open>x\<close>, in
  the order D < C < B < A.
\<close>

theorem grade_monotone:
  fixes x :: "'a::linorder"
  shows "has_quartiles q_dict r q25 q50 q75 \<Longrightarrow> q25 \<le> q50 \<Longrightarrow> q50 \<le> q75 \<Longrightarrow> x \<le> y \<Longrightarrow>
     (\<exists>gx gy. recencia_class x r q_dict = Inr gx \<and> recencia_class y r q_dict = Inr gy \<and>
        grade_rank gy \<le> grade_rank gx) \<and>
     (\<exists>hx hy. freq_val_class x r q_dict = Inr hx \<and> freq_val_class y r q_dict = Inr hy \<and>
        grade_rank hx \<le> grade_rank hy)"
  by (auto simp: recencia_class_eq freq_val_class_eq grade_rank_def)

theorem grade_monotone_witness:
  "has_quartiles (one_column ''Valor'' (2::int) 4 6) ''Valor'' 2 4 6 \<and>
   (2::int) \<le> 4 \<and> (4::int) \<le> 6 \<and> (3::int) \<le> 7 \<and>
   (\<exists>gx gy. recencia_class (3::int) ''Valor'' (one_column ''Valor'' 2 4 6) = Inr gx \<and>
      recencia_class (7::int) ''Valor'' (one_column ''Valor'' 2 4 6) = Inr gy \<and>
      grade_rank gy \<le> grade_rank gx) \<and>
   (\<exists>hx hy. freq_val_class (3::int) ''Valor'' (one_column ''Valor'' 2 4 6) = Inr hx \<and>
      freq_val_class (7::int) ''Valor'' (one_column ''Valor'' 2 4 6) = Inr hy \<and>
      grade_rank hx \<le> grade_rank hy)"
proof -
  have h: "has_quartiles (one_column ''Valor'' (2::int) 4 6) ''Valor'' 2 4 6"
    by (rule has_quartiles_one_column)
  show ?thesis
    using h grade_monotone [OF h, of 3 7] by simp
qed

subsection \<open>Properties of the aggregation\<close>

lemma Series_apply_Inr:
  "(\<And>x. x \<in> set xs \<Longrightarrow> f x = Inr (g x)) \<Longrightarrow> Series_apply f xs = Inr (map g xs)"
  by (induction xs) simp_all

lemma Series_apply_Inl:
  "Series_apply f xs = Inl e \<Longrightarrow> \<exists>x \<in> set xs. f x = Inl e"
  by (induction xs) (auto split: sum.splits)

lemma filter_keyed_single:
  "distinct ks \<Longrightarrow> k \<in> set ks \<Longrightarrow>
   filter (\<lambda>(k', b). k' = k) (map (\<lambda>k. (k, g k)) ks) = [(k, g k)]"
proof (induction ks)
  case Nil
  then show ?case by simp
next
  case (Cons a ks)
  show ?case
  proof (cases "a = k")
    case True
    with Cons.prems have "k \<notin> set ks" by simp
    then have "filter (\<lambda>(k', b). k' = k) (map (\<lambda>k. (k, g k)) ks) = []"
      by (auto simp: filter_empty_conv)
    with True show ?thesis by simp
  next
    case False
    with Cons show ?thesis by simp
  qed
qed

lemma merge_keyed:
  assumes "distinct ks'" "set ks \<subseteq> set ks'"
  shows "merge (map (\<lambda>k. (k, f k)) ks) (map (\<lambda>k. (k, g k)) ks') = map (\<lambda>k. (k, f k, g k)) ks"
  using assms(2)
proof (induction ks)
  case Nil
  then show ?case by (simp add: merge_def)
next
  case (Cons a ks)
  then have a: "a \<in> set ks'" and sub: "set ks \<subseteq> set ks'" by simp_all
  have "merge (map (\<lambda>k. (k, f k)) (a # ks)) (map (\<lambda>k. (k, g k)) ks') =
        map (\<lambda>(k', b). (a, f a, b)) (filter (\<lambda>(k', b). k' = a) (map (\<lambda>k. (k, g k)) ks')) @
        merge (map (\<lambda>k. (k, f k)) ks) (map (\<lambda>k. (k, g k)) ks')"
    by (simp add: merge_def)
  also have "\<dots> = (a, f a, g a) # map (\<lambda>k. (k, f k, g k)) ks"
    by (simp add: filter_keyed_single[OF assms(1) a] Cons.IH[OF sub])
  finally show ?case by simp
qed

lemma set_map_filter_eq: "set (List.map_filter f xs) = {y. \<exists>x \<in> set xs. f x = Some y}"
  by (induction xs) (auto simp: List.map_filter_def)

lemma set_clientes: "set (clientes df) = {k. Some k \<in> ID_cliente ` set df}"
  by (auto simp: clientes_def set_map_filter_eq image_iff) metis+

lemma distinct_clientes: "distinct (clientes df)"
  by (simp add: clientes_def)

lemma groupby_keyed:
  "map (\<lambda>(k, g). (k, F g)) (groupby ID_cliente df) = map (\<lambda>k. (k, F (compras_de df k))) (clientes df)"
  by (simp add: groupby_def clientes_def compras_de_def comp_def)

lemma groupby_keys: "map fst (groupby ID_cliente df) = clientes df"
  by (simp add: groupby_def clientes_def comp_def)

lemma groupby_ultima:
  "map (\<lambda>(k, g). Max (set (map DiaCompra g))) (groupby ID_cliente df) = map (ultima_compra df) (clientes df)"
  by (simp add: groupby_def clientes_def compras_de_def ultima_compra_def comp_def)

lemma df_recencia_eq:
  assumes "\<And>k. k \<in> set (clientes df) \<Longrightarrow> timedelta_ok (d - ultima_compra df k)"
  shows "df_recencia (Timestamp d) df =
     Inr (map (\<lambda>k. (k, of_int (days (d - ultima_compra df k)))) (clientes df))"
proof -
  have "Series_apply (dias_desde (Timestamp d)) (map (ultima_compra df) (clientes df)) =
      Inr (map (\<lambda>x. of_int (days (d - x))) (map (ultima_compra df) (clientes df)))"
    by (rule Series_apply_Inr) (auto simp: dias_desde_def assms)
  then show ?thesis
    unfolding df_recencia_def Let_def groupby_ultima groupby_keys
    by (simp add: zip_map2 zip_same_conv_map comp_def)
qed

lemma agregar_eq:
  assumes "\<And>k. k \<in> set (clientes df) \<Longrightarrow> timedelta_ok (d - ultima_compra df k)"
  shows "agregar (Timestamp d) df = Inr (map (metricas_de d df) (clientes df))"
proof -
  let ?ks = "clientes df"
  have dk: "distinct ?ks" by (rule distinct_clientes)
  have f: "df_frequencia df =
      map (\<lambda>k. (k, of_nat (length (filter (\<lambda>r. CodigoCompra r \<noteq> None) (compras_de df k))))) ?ks"
    unfolding df_frequencia_def groupby_keyed
    by (simp add: filter_map comp_def)
  have v: "df_valor df =
      map (\<lambda>k. (k, soma (coluna_int64 (map ValorTotal df)) (map ValorTotal (compras_de df k)))) ?ks"
    unfolding df_valor_def by (rule groupby_keyed)
  have 1: "merge (map (\<lambda>k. (k, R k)) ?ks) (df_frequencia df) =
      map (\<lambda>k. (k, R k, of_nat (length (filter (\<lambda>r. CodigoCompra r \<noteq> None) (compras_de df k))))) ?ks"
    for R :: "'a \<Rightarrow> 64 word"
    unfolding f by (rule merge_keyed[OF dk subset_refl])
  have 2: "merge (map (\<lambda>k. (k, R k, F k)) ?ks) (df_valor df) =
      map (\<lambda>k. (k, (R k, F k), soma (coluna_int64 (map ValorTotal df)) (map ValorTotal (compras_de df k)))) ?ks"
    for R :: "'a \<Rightarrow> 64 word" and F :: "'a \<Rightarrow> 64 word"
    unfolding v by (rule merge_keyed[OF dk subset_refl])
  have r: "df_recencia (Timestamp d) df =
     Inr (map (\<lambda>k. (k, of_int (days (d - ultima_compra df k)))) ?ks)"
    by (rule df_recencia_eq) (rule assms)
  show ?thesis
    by (simp add: agregar_def r 1 2 metricas_de_def comp_def)
qed

lemma agregar_empty: "clientes df = [] \<Longrightarrow> agregar dia df = Inr []"
  by (simp add: agregar_def df_recencia_def groupby_def clientes_def merge_def)


lemma cliente_metricas_de: "cliente (metricas_de d df k) = k"
  by (simp add: metricas_de_def)


lemma Series_max_Timestamp:
  "df \<noteq> [] \<Longrightarrow> list_all timestamp_ok (map DiaCompra df) \<Longrightarrow>
   Series_max (map DiaCompra df) = Timestamp (Max (DiaCompra ` set df))"
  by (simp add: Series_max_def)

lemma ultima_compra_in:
  assumes "k \<in> set (clientes df)"
  shows "ultima_compra df k \<in> DiaCompra ` set df"
proof -
  from assms have ne: "DiaCompra ` set (compras_de df k) \<noteq> {}"
    by (auto simp: set_clientes compras_de_def)
  have "ultima_compra df k \<in> DiaCompra ` set (compras_de df k)"
    unfolding ultima_compra_def using ne by (intro Max_in) simp_all
  then show ?thesis by (auto simp: compras_de_def)
qed

lemma ultima_compra_cabe:
  assumes k: "k \<in> set (clientes df)"
    and span: "Max (DiaCompra ` set df) - Min (DiaCompra ` set df) < 9223372036854775808"
  shows "0 \<le> Max (DiaCompra ` set df) - ultima_compra df k"
    and "Max (DiaCompra ` set df) - ultima_compra df k < 9223372036854775808"
    and "timedelta_ok (Max (DiaCompra ` set df) - ultima_compra df k)"
proof -
  have u: "ultima_compra df k \<in> DiaCompra ` set df" by (rule ultima_compra_in[OF k])
  have le: "ultima_compra df k \<le> Max (DiaCompra ` set df)" using u by (intro Max_ge) simp_all
  have ge: "Min (DiaCompra ` set df) \<le> ultima_compra df k" using u by (intro Min_le) simp_all
  show "0 \<le> Max (DiaCompra ` set df) - ultima_compra df k" using le by simp
  show lt: "Max (DiaCompra ` set df) - ultima_compra df k < 9223372036854775808"
    using ge span by linarith
  show "timedelta_ok (Max (DiaCompra ` set df) - ultima_compra df k)"
    using le lt by (simp add: timedelta_ok_def)
qed

lemma agregar_ok:
  assumes "Max (DiaCompra ` set df) - Min (DiaCompra ` set df) < 9223372036854775808"
  shows "agregar (Timestamp (Max (DiaCompra ` set df))) df =
     Inr (map (metricas_de (Max (DiaCompra ` set df)) df) (clientes df))"
  by (rule agregar_eq) (rule ultima_compra_cabe(3)[OF _ assms])

lemma sint_of_int_64:
  "- 9223372036854775808 \<le> x \<Longrightarrow> x < 9223372036854775808 \<Longrightarrow> sint (of_int x :: 64 word) = x"
  by (simp add: signed_of_int signed_take_bit_int_eq_self)

lemma days_whole:
  shows "days y * 86400000000000 \<le> y" and "y < (days y + 1) * 86400000000000"
proof -
  have eq: "y = days y * 86400000000000 + y mod 86400000000000"
    by (simp add: days_def ns_per_day_def)
  have m: "0 \<le> y mod 86400000000000" "y mod 86400000000000 < 86400000000000" by simp_all
  show "days y * 86400000000000 \<le> y" using eq m(1) by linarith
  have "(days y + 1) * 86400000000000 = days y * 86400000000000 + 86400000000000"
    by (simp add: algebra_simps)
  then show "y < (days y + 1) * 86400000000000" using eq m(2) by linarith
qed

lemma days_bounds: "0 \<le> y \<Longrightarrow> 0 \<le> days y \<and> days y \<le> y"
proof -
  assume y: "0 \<le> y"
  then have 0: "0 \<le> days y" by (simp add: days_def ns_per_day_def pos_imp_zdiv_nonneg_iff)
  with days_whole(1)[of y] have "days y \<le> y" by linarith
  with 0 show ?thesis by simp
qed

lemma Recencia_metricas_de:
  assumes k: "k \<in> set (clientes df)"
    and span: "Max (DiaCompra ` set df) - Min (DiaCompra ` set df) < 9223372036854775808"
  shows "sint (Recencia (metricas_de (Max (DiaCompra ` set df)) df k)) =
     days (Max (DiaCompra ` set df) - ultima_compra df k)"
proof -
  let ?y = "Max (DiaCompra ` set df) - ultima_compra df k"
  have "0 \<le> days ?y" "days ?y \<le> ?y"
    using days_bounds[OF ultima_compra_cabe(1)[OF k span]] by simp_all
  moreover have "?y < 9223372036854775808" by (rule ultima_compra_cabe(2)[OF k span])
  ultimately have "sint (of_int (days ?y) :: 64 word) = days ?y"
    by (intro sint_of_int_64) linarith+
  then show ?thesis by (simp add: metricas_de_def)
qed


















subsection \<open>Properties of the quartiles\<close>











lemma Series_quantile_Some:
  assumes "valores col \<noteq> []" "0 \<le> q" "q \<le> 1"
  shows "\<exists>a. Series_quantile col q = Some a"
  using assms by (cases col) (auto simp: Series_quantile_def valores_def Let_def)


lemma quantis_present:
  assumes "valores col \<noteq> []"
  shows "\<exists>a b c. quantis col (1/4) = Some a \<and> quantis col (1/2) = Some b \<and> quantis col (3/4) = Some c"
  using Series_quantile_Some[OF assms, of "1/4"] Series_quantile_Some[OF assms, of "1/2"]
    Series_quantile_Some[OF assms, of "3/4"]
  by (auto simp: quantis_def)

lemma inteiros_length: "inteiros vs = Some ws \<Longrightarrow> length ws = length vs"
proof (induction vs arbitrary: ws)
  case Nil
  then show ?case by simp
next
  case (Cons v vs)
  then show ?case by (cases v) auto
qed

lemma sort_key_eq_Nil: "sort_key f xs = [] \<longleftrightarrow> xs = []"
  by (metis length_sort length_0_conv)

lemma valores_eq_Nil:
  "valores col = [] \<longleftrightarrow> (case col of Int64 ws \<Rightarrow> ws = [] | Float64 xs \<Rightarrow> xs = [])"
  by (cases col) (simp_all add: valores_def sort_key_eq_Nil)

lemma coluna_Valor_nonempty: "t \<noteq> [] \<Longrightarrow> valores (coluna_Valor t) \<noteq> []"
proof (cases "inteiros (map Valor t)")
  case None
  assume "t \<noteq> []"
  then show ?thesis by (simp add: coluna_Valor_def None valores_eq_Nil)
next
  case (Some ws)
  assume "t \<noteq> []"
  moreover have "length ws = length t" using inteiros_length[OF Some] by simp
  ultimately have "ws \<noteq> []" by auto
  then show ?thesis by (simp add: coluna_Valor_def Some valores_eq_Nil)
qed

lemma valores_coluna_de: "t \<noteq> [] \<Longrightarrow> valores (coluna_de t m) \<noteq> []"
proof -
  assume t: "t \<noteq> []"
  have "valores (coluna_Recencia t) \<noteq> []" "valores (coluna_Frequencia t) \<noteq> []"
    using t by (simp_all add: coluna_Recencia_def coluna_Frequencia_def valores_eq_Nil)
  with coluna_Valor_nonempty[OF t] show ?thesis by (simp add: coluna_de_def)
qed

lemma DataFrame_quantile_coluna:
  "m \<in> {''Recencia'', ''Frequencia'', ''Valor''} \<Longrightarrow>
   DataFrame_quantile t m = Some (quantis (coluna_de t m))"
  by (auto simp: DataFrame_quantile_def coluna_de_def)

lemma DataFrame_quantile_present:
  assumes "t \<noteq> []" "m \<in> {''Recencia'', ''Frequencia'', ''Valor''}"
  shows "\<exists>q25 q50 q75. has_quartiles (DataFrame_quantile t) m q25 q50 q75"
  using quantis_present[OF valores_coluna_de[OF assms(1), of m]]
  by (auto simp: has_quartiles_def DataFrame_quantile_coluna[OF assms(2)])









text \<open>
  The recency and the frequency of an aggregated table are not negative, so their
  columns do not overflow: of the three metrics only the value can break the order of
  the boundaries.
\<close>

lemma sem_estouro_nonneg:
  assumes "\<And>w. w \<in> set ws \<Longrightarrow> 0 \<le> sint w"
  shows "sem_estouro (Int64 ws)"
proof (cases "ws = []")
  case True
  then show ?thesis by (simp add: sem_estouro_def)
next
  case False
  then have ne: "sint ` set ws \<noteq> {}" by simp
  have "Max (sint ` set ws) \<in> sint ` set ws" using ne by (intro Max_in) simp_all
  then obtain a where a: "a \<in> set ws" "Max (sint ` set ws) = sint a" by auto
  have "Min (sint ` set ws) \<in> sint ` set ws" using ne by (intro Min_in) simp_all
  then obtain b where b: "b \<in> set ws" "Min (sint ` set ws) = sint b" by auto
  have "sint a < 9223372036854775808" using sint_lt[of a] by simp
  moreover have "0 \<le> sint b" using assms b(1) by simp
  ultimately show ?thesis using a(2) b(2) by (simp add: sem_estouro_def)
qed

lemma agregar_sem_estouro:
  assumes span: "Max (DiaCompra ` set df) - Min (DiaCompra ` set df) < 9223372036854775808"
    and len: "length df < 9223372036854775808"
  shows "sem_estouro (coluna_de (map (metricas_de (Max (DiaCompra ` set df)) df) (clientes df)) ''Recencia'')"
    and "sem_estouro (coluna_de (map (metricas_de (Max (DiaCompra ` set df)) df) (clientes df)) ''Frequencia'')"
proof -
  let ?d = "Max (DiaCompra ` set df)"
  let ?t = "map (metricas_de ?d df) (clientes df)"
  have cr: "coluna_de ?t ''Recencia'' = Int64 (map Recencia ?t)"
    by (simp add: coluna_de_def coluna_Recencia_def)
  have cf: "coluna_de ?t ''Frequencia'' = Int64 (map Frequencia ?t)"
    by (simp add: coluna_de_def coluna_Frequencia_def)
  have r: "0 \<le> sint w" if "w \<in> set (map Recencia ?t)" for w
  proof -
    from that obtain k where k: "k \<in> set (clientes df)" and w: "w = Recencia (metricas_de ?d df k)"
      by auto
    show ?thesis
      unfolding w Recencia_metricas_de[OF k span]
      using days_bounds[OF ultima_compra_cabe(1)[OF k span]] by simp
  qed
  show "sem_estouro (coluna_de ?t ''Recencia'')"
    unfolding cr by (rule sem_estouro_nonneg) (rule r)
  have f: "0 \<le> sint w" if "w \<in> set (map Frequencia ?t)" for w
  proof -
    from that obtain k where w: "w = Frequencia (metricas_de ?d df k)" by auto
    let ?n = "length (filter (\<lambda>r. CodigoCompra r \<noteq> None) (compras_de df k))"
    have "?n \<le> length df"
      by (rule order_trans[OF length_filter_le]) (simp add: compras_de_def)
    then have "sint (of_int (int ?n) :: 64 word) = int ?n"
      using len by (intro sint_of_int_64) linarith+
    then show ?thesis by (simp add: w metricas_de_def)
  qed
  show "sem_estouro (coluna_de ?t ''Frequencia'')"
    unfolding cf by (rule sem_estouro_nonneg) (rule f)
qed

lemma Series_quantile_single_Int64:
  "0 \<le> q \<Longrightarrow> q \<le> 1 \<Longrightarrow> Series_quantile (Int64 [w]) q = Some (of_int (sint w))"
  by (simp add: Series_quantile_def lerp_def)

lemma Series_quantile_single_Float64:
  "0 \<le> q \<Longrightarrow> q \<le> 1 \<Longrightarrow> Series_quantile (Float64 [x]) q = Some x"
  by (simp add: Series_quantile_def lerp_def)

lemma quantis_single_Int64:
  "quantis (Int64 [w]) lv =
     (if lv = 1/4 \<or> lv = 1/2 \<or> lv = 3/4 then Some (of_int (sint w)) else None)"
  by (auto simp: quantis_def Series_quantile_single_Int64)

lemma coluna_Valor_single:
  "quantis (coluna_Valor [m]) lv = (if lv = 1/4 \<or> lv = 1/2 \<or> lv = 3/4 then Some (valor_float (Valor m)) else None)"
  by (cases "Valor m")
    (auto simp: coluna_Valor_def quantis_def valor_float_def Series_quantile_single_Int64
      Series_quantile_single_Float64)


text \<open>
  C9. For a population of one customer the estimation of the quartiles does not fail,
  and the three boundaries of each metric are that customer's value of the metric.
\<close>

theorem quartiles_single_customer:
  "has_quartiles (DataFrame_quantile [m]) ''Recencia''
     (of_int (sint (Recencia m))) (of_int (sint (Recencia m))) (of_int (sint (Recencia m))) \<and>
   has_quartiles (DataFrame_quantile [m]) ''Frequencia''
     (of_int (sint (Frequencia m))) (of_int (sint (Frequencia m))) (of_int (sint (Frequencia m))) \<and>
   has_quartiles (DataFrame_quantile [m]) ''Valor''
     (valor_float (Valor m)) (valor_float (Valor m)) (valor_float (Valor m))"
  by (simp add: has_quartiles_def DataFrame_quantile_def coluna_Valor_single
      coluna_Recencia_def coluna_Frequencia_def quantis_single_Int64)

subsection \<open>Properties of the marketing actions\<close>

text \<open>
  C6. The table of actions maps AAA to the text on discount coupons, referrals and free
  samples, DDD to the text on inactive customers of low spending, and DAA and CAA to
  one and the same text on the reactivation coupon; every other score is mapped to the
  missing value, which is no text at all (every text of the table is non-empty), and
  the lookup of a column of scores raises nothing.
\<close>

theorem action_resolver:
  "map_of dict_acoes ''AAA'' =
     Some (''Enviar cupons de desconto, pedir indica'' @ [CHR 0xC3, CHR 0xA7, CHR 0xC3, CHR 0xA3] @
           ''o, enviar amostras gr'' @ [CHR 0xC3, CHR 0xA1] @ ''tis de novos produtos.'') \<and>
   map_of dict_acoes ''DDD'' =
     Some (''Clientes inativos com baixo gasto '' @ [CHR 0xE2, CHR 0x80, CHR 0x94] @
           '' monitorar ou desconsiderar a'' @ [CHR 0xC3, CHR 0xA7, CHR 0xC3, CHR 0xB5] @ ''es.'') \<and>
   map_of dict_acoes ''DAA'' =
     Some (''Clientes que gastaram bastante mas est'' @ [CHR 0xC3, CHR 0xA3] @ ''o sumindo '' @
           [CHR 0xE2, CHR 0x80, CHR 0x94] @ '' enviar cupom de reativa'' @
           [CHR 0xC3, CHR 0xA7, CHR 0xC3, CHR 0xA3] @ ''o.'') \<and>
   map_of dict_acoes ''CAA'' = map_of dict_acoes ''DAA'' \<and>
   (\<forall>s. s \<notin> {''AAA'', ''DDD'', ''DAA'', ''CAA''} \<longrightarrow> map_of dict_acoes s = None) \<and>
   (\<forall>s a. map_of dict_acoes s = Some a \<longrightarrow> a \<noteq> []) \<and>
   (\<forall>ss. Series_map dict_acoes ss = map (map_of dict_acoes) ss)"
  by (simp add: dict_acoes_def Series_map_def)


theorem action_resolver_witness:
  "''BBB'' \<notin> {''AAA'', ''DDD'', ''DAA'', ''CAA''} \<and> map_of dict_acoes ''BBB'' = None \<and>
   Series_map dict_acoes [''AAA'', ''BBB''] =
     [Some (''Enviar cupons de desconto, pedir indica'' @ [CHR 0xC3, CHR 0xA7, CHR 0xC3, CHR 0xA3] @
            ''o, enviar amostras gr'' @ [CHR 0xC3, CHR 0xA1] @ ''tis de novos produtos.''), None]"
proof -
  have h: "''BBB'' \<notin> {''AAA'', ''DDD'', ''DAA'', ''CAA''}" by simp
  show ?thesis using h action_resolver by (simp add: Series_map_def)
qed


subsection \<open>The whole run\<close>

text \<open>
  The exceptions of the run: a lookup in the table of quartiles can only raise
  \<^verbatim>\<open>KeyError\<close>, the aggregation under a current day that is a timestamp only
  \<^verbatim>\<open>OverflowError\<close>, so that \<^verbatim>\<open>AttributeError\<close> comes from line 105 alone.
\<close>

lemma q_lookup_error: "q_lookup q_dict r lv = Inl e \<Longrightarrow> e = KeyError"
  by (auto simp: q_lookup_def split: option.splits)

lemma recencia_class_error: "recencia_class x r q_dict = Inl e \<Longrightarrow> e = KeyError"
  by (auto simp: recencia_class_def split: sum.splits if_splits dest: q_lookup_error)

lemma freq_val_class_error: "freq_val_class x r q_dict = Inl e \<Longrightarrow> e = KeyError"
  by (auto simp: freq_val_class_def split: sum.splits if_splits dest: q_lookup_error)

lemma classificar_error: "classificar quartis t = Inl e \<Longrightarrow> e = KeyError"
  by (auto simp: classificar_def Let_def split: sum.splits
      dest!: Series_apply_Inl dest: recencia_class_error freq_val_class_error)

lemma dias_desde_error: "dias_desde (Timestamp d) x = Inl e \<Longrightarrow> e = OverflowError"
  by (auto simp: dias_desde_def split: if_splits)

lemma agregar_error: "agregar (Timestamp d) df = Inl e \<Longrightarrow> e = OverflowError"
  by (auto simp: agregar_def df_recencia_def Let_def split: sum.splits
      dest!: Series_apply_Inl dest: dias_desde_error)

lemma main_AttributeError_iff:
  "main df = Inl AttributeError \<longleftrightarrow> df = [] \<or> \<not> list_all timestamp_ok (map DiaCompra df)"
proof (cases "df = [] \<or> \<not> list_all timestamp_ok (map DiaCompra df)")
  case True
  then have "date (Series_max (map DiaCompra df)) = Inl AttributeError"
    by (auto simp: Series_max_def date_def)
  with True show ?thesis by (simp add: main_def Let_def)
next
  case False
  then have m: "Series_max (map DiaCompra df) = Timestamp (Max (DiaCompra ` set df))"
    by (simp add: Series_max_def)
  have "main df \<noteq> Inl AttributeError"
  proof
    assume a: "main df = Inl AttributeError"
    show False
    proof (cases "agregar (Timestamp (Max (DiaCompra ` set df))) df")
      case (Inl e)
      with a m have "e = AttributeError" by (simp add: main_def Let_def date_def)
      with agregar_error[OF Inl] show False by simp
    next
      case (Inr t)
      with a m have "classificar (DataFrame_quantile t) t = Inl AttributeError"
        by (simp add: main_def Let_def date_def)
      from classificar_error[OF this] show False by simp
    qed
  qed
  with False show ?thesis by simp
qed


text \<open>
  C7 (as amended). On the empty sequence of purchases there is no current day: the
  maximum of the empty column is NaN, its display in line 105 raises
  \<^verbatim>\<open>AttributeError\<close>, and the run ends there, before any metric or graded row exists.
  The run ends so exactly when the sequence is empty or one of its dates fits no
  timestamp. The source has no check for an empty sequence and no exception of its own
  for it.
\<close>

theorem empty_dataset_aborts:
  "Series_max (map DiaCompra ([] :: ('k::linorder) compra list)) = NaN \<and>
   date NaN = Inl AttributeError \<and>
   main ([] :: ('k::linorder) compra list) = Inl AttributeError \<and>
   (main (df :: ('k::linorder) compra list) = Inl AttributeError \<longleftrightarrow>
      df = [] \<or> \<not> list_all timestamp_ok (map DiaCompra df))"
  using main_AttributeError_iff[of df] main_AttributeError_iff[of "[] :: 'k compra list"]
  by (simp add: Series_max_def date_def)


text \<open>
  C7 as stated fails: the steps of the aggregation raise nothing on the empty frame,
  they give the empty table; the exception of the run is that of the display line.
\<close>

theorem empty_dataset_counterexample:
  "agregar (Series_max (map DiaCompra [])) ([] :: nat compra list) = Inr [] \<and>
   main ([] :: nat compra list) = Inl AttributeError"
  by (simp add: agregar_empty clientes_def main_def Series_max_def date_def)


text \<open>
  On a sequence of purchases within the range of the timestamps no step fails: the run
  ends with the graded table, one row per customer in increasing order of the
  customers. In the example customer 1 gets the score DAA and customer 2 the score ADD.
\<close>

lemma classificar_Inr:
  "\<exists>rows. classificar (DataFrame_quantile t) t = Inr rows \<and> map cliente rows = map cliente t"
proof (cases "t = []")
  case True
  then show ?thesis by (simp add: classificar_def Series_map_def)
next
  case False
  let ?q = "DataFrame_quantile t"
  obtain r1 r2 r3 where r: "has_quartiles ?q ''Recencia'' r1 r2 r3"
    using DataFrame_quantile_present[OF False, of "''Recencia''"] by auto
  obtain f1 f2 f3 where f: "has_quartiles ?q ''Frequencia'' f1 f2 f3"
    using DataFrame_quantile_present[OF False, of "''Frequencia''"] by auto
  obtain v1 v2 v3 where v: "has_quartiles ?q ''Valor'' v1 v2 v3"
    using DataFrame_quantile_present[OF False, of "''Valor''"] by auto
  define gR where "gR = (\<lambda>x :: 64 word. if (of_int (sint x) :: rat) \<le> r1 then ''A''
      else if of_int (sint x) \<le> r2 then ''B'' else if of_int (sint x) \<le> r3 then ''C'' else ''D'')"
  define gF where "gF = (\<lambda>x :: 64 word. if (of_int (sint x) :: rat) \<le> f1 then ''D''
      else if of_int (sint x) \<le> f2 then ''C'' else if of_int (sint x) \<le> f3 then ''B'' else ''A'')"
  define gV where "gV = (\<lambda>x. if valor_float x \<le> v1 then ''D''
      else if valor_float x \<le> v2 then ''C'' else if valor_float x \<le> v3 then ''B'' else ''A'')"
  have R: "Series_apply (\<lambda>x. recencia_class (of_int (sint x)) ''Recencia'' ?q) xs = Inr (map gR xs)"
    for xs
    by (rule Series_apply_Inr) (simp add: recencia_class_eq[OF r] gR_def)
  have F: "Series_apply (\<lambda>x. freq_val_class (of_int (sint x)) ''Frequencia'' ?q) xs = Inr (map gF xs)"
    for xs
    by (rule Series_apply_Inr) (simp add: freq_val_class_eq[OF f] gF_def)
  have V: "Series_apply (\<lambda>x. freq_val_class (valor_float x) ''Valor'' ?q) xs = Inr (map gV xs)"
    for xs
    by (rule Series_apply_Inr) (simp add: freq_val_class_eq[OF v] gV_def)
  define Rg where "Rg = map gR (map Recencia t)"
  define Fg where "Fg = map gF (map Frequencia t)"
  define Vg where "Vg = map gV (map Valor t)"
  define Y where "Y = zip Rg (zip Fg (zip Vg (zip (map (\<lambda>(r, f, v). r @ f @ v) (zip Rg (zip Fg Vg)))
        (Series_map dict_acoes (map (\<lambda>(r, f, v). r @ f @ v) (zip Rg (zip Fg Vg)))))))"
  have len: "length Y = length t"
    by (simp add: Y_def Rg_def Fg_def Vg_def Series_map_def)
  have fstY: "map fst (zip t Y) = t"
    using len by (simp add: map_fst_zip)
  let ?G = "\<lambda>(m, r, f, v, s, a).
       \<lparr>cliente = cliente m, Recencia = Recencia m, Frequencia = Frequencia m,
        Valor = Valor m, R_quartil = r, F_quartil = f, V_quartil = v,
        RFV_Score = s, acoes = a\<rparr>"
  have "map cliente (map ?G (zip t Y)) = map cliente (map fst (zip t Y))"
    by (simp add: case_prod_unfold comp_def)
  then have cl: "map cliente (map ?G (zip t Y)) = map cliente t"
    by (simp only: fstY)
  have "classificar ?q t = Inr (map ?G (zip t Y))"
    unfolding classificar_def R F V by (simp add: Let_def Rg_def Fg_def Vg_def Y_def)
  with cl show ?thesis by blast
qed

lemma main_ok:
  assumes "df \<noteq> []" "list_all timestamp_ok (map DiaCompra df)"
    "Max (DiaCompra ` set df) - Min (DiaCompra ` set df) < 9223372036854775808"
  shows "\<exists>rows. main df = Inr rows \<and> map cliente rows = clientes df"
proof -
  let ?d = "Max (DiaCompra ` set df)"
  let ?t = "map (metricas_de ?d df) (clientes df)"
  obtain rows where "classificar (DataFrame_quantile ?t) ?t = Inr rows" "map cliente rows = map cliente ?t"
    using classificar_Inr[of ?t] by blast
  then show ?thesis
    by (simp add: main_def Let_def Series_max_Timestamp[OF assms(1,2)] date_def
        agregar_ok[OF assms(3)] comp_def cliente_metricas_de)
qed

lemma main_exemplo_scores:
  "map_sum id (map (\<lambda>r. (cliente r, RFV_Score r))) (main exemplo) = Inr [(1, ''DAA''), (2, ''ADD'')]"
  by code_simp

end
